theory Spec2Isabelle
  imports Complex_Main
begin

section \<open>Images and the canvas primitives used by the processor\<close>

text \<open>
  The processor of \<^verbatim>\<open>SelfieSegmentationProcessor.ts\<close> draws on HTML canvases. A canvas
  bitmap, a video frame and a segmentation mask are all images: a width, a height and
  one pixel per coordinate. Pixels follow the blend semantics the specification gives in
  its section 4.4: a pixel is either transparent (\<open>None\<close>) or carries a colour.
  JavaScript numbers that hold counts and sizes are \<open>nat\<close>; the scale factor and the
  blur strength are \<open>real\<close> (exact arithmetic, no NaN and no rounding of doubles).
\<close>

type_synonym colour = nat
type_synonym pixel = "colour option"

record image =
  width :: nat
  height :: nat
  pixels :: "nat \<Rightarrow> nat \<Rightarrow> pixel"

definition blank :: "nat \<Rightarrow> nat \<Rightarrow> image" where
  "blank w h = \<lparr>width = w, height = h, pixels = (\<lambda>x y. None)\<rparr>"

definition solid :: "nat \<Rightarrow> nat \<Rightarrow> colour \<Rightarrow> image" where
  "solid w h c = \<lparr>width = w, height = h, pixels = (\<lambda>x y. if x < w \<and> y < h then Some c else None)\<rparr>"

text \<open>
  Assigning a number to \<^verbatim>\<open>canvas.width\<close> or \<^verbatim>\<open>canvas.height\<close> converts it to an
  unsigned 32-bit integer (truncation towards zero, modulo \<open>2^32\<close>); a value above
  \<open>2^31 - 1\<close> is replaced by the attribute's default (300 for the width, 150 for the
  height). Nothing clamps the result from below.
\<close>

definition to_uint32 :: "real \<Rightarrow> nat" where
  "to_uint32 x = nat ((if 0 \<le> x then \<lfloor>x\<rfloor> else \<lceil>x\<rceil>) mod 4294967296)"

definition canvas_dimension :: "nat \<Rightarrow> real \<Rightarrow> nat" where
  "canvas_dimension dflt x = (let n = to_uint32 x in if n \<le> 2147483647 then n else dflt)"

datatype composite_operation = SourceOver | SourceIn | DestinationOver

text \<open>
  Modelled from the spec: the blend modes of the Canvas 2D context, which is platform code
  and not part of the repository. Section 4.4: source-in gives the source where the
  destination is not transparent and transparent elsewhere; destination-over gives the
  destination where it is not transparent and the source elsewhere. Source-over is the
  context's default mode.
\<close>

fun blend :: "composite_operation \<Rightarrow> pixel \<Rightarrow> pixel \<Rightarrow> pixel" where
  "blend SourceOver s d = (case s of Some c \<Rightarrow> Some c | None \<Rightarrow> d)"
| "blend SourceIn s d = (case d of Some c \<Rightarrow> s | None \<Rightarrow> None)"
| "blend DestinationOver s d = (case d of Some c \<Rightarrow> Some c | None \<Rightarrow> s)"

text \<open>
  \<^verbatim>\<open>drawImage(img, 0, 0, w, h)\<close> first stretches the image to the rectangle \<open>w \<times> h\<close>
  (an image that already has that size is taken as it is, otherwise it is resampled,
  here by nearest neighbour) and then blends it into every pixel of the canvas.
\<close>

definition stretch :: "image \<Rightarrow> nat \<Rightarrow> nat \<Rightarrow> image" where
  "stretch img w h =
     (if width img = w \<and> height img = h then img
      else \<lparr>width = w, height = h,
            pixels = (\<lambda>x y. if x < w \<and> y < h
                             then pixels img (x * width img div w) (y * height img div h)
                             else None)\<rparr>)"

definition drawImage :: "composite_operation \<Rightarrow> image \<Rightarrow> image \<Rightarrow> image" where
  "drawImage mode src canvas =
     canvas\<lparr>pixels := (\<lambda>x y. if x < width canvas \<and> y < height canvas
                              then blend mode (pixels src x y) (pixels canvas x y)
                              else None)\<rparr>"

definition clearRect :: "image \<Rightarrow> image" where
  "clearRect canvas = canvas\<lparr>pixels := (\<lambda>x y. None)\<rparr>"

text \<open>
  \<^verbatim>\<open>fillText\<close> paints the rasterised FPS text over the canvas (source-over). The raster
  itself comes from the platform.
\<close>

definition fillText :: "(nat \<Rightarrow> nat \<Rightarrow> pixel) \<Rightarrow> image \<Rightarrow> image" where
  "fillText raster canvas = drawImage SourceOver \<lparr>width = width canvas, height = height canvas, pixels = raster\<rparr> canvas"

section \<open>The deferred observable\<close>

text \<open>
  Modelled from the spec: \<^verbatim>\<open>DeferredObservable\<close> is imported from a file of the
  repository that is not among the sources. Section 4.1 describes it as a single slot:
  \<^verbatim>\<open>value\<close> is the last value published (absent at first), \<^verbatim>\<open>next\<close> stores a
  value and resolves the pending waiter, \<^verbatim>\<open>whenNext\<close> registers the waiter.
\<close>

record deferred =
  current :: "image option"
  waiting :: bool

definition deferred_new :: deferred where
  "deferred_new = \<lparr>current = None, waiting = False\<rparr>"

definition deferred_value :: "deferred \<Rightarrow> image option" where
  "deferred_value d = current d"

definition deferred_next :: "image \<Rightarrow> deferred \<Rightarrow> deferred" where
  "deferred_next v d = \<lparr>current = Some v, waiting = False\<rparr>"

definition deferred_whenNext :: "deferred \<Rightarrow> deferred" where
  "deferred_whenNext d = d\<lparr>waiting := True\<rparr>"

section \<open>The processor\<close>

text \<open>
  The inference backend (\<^verbatim>\<open>SelfieSegmentation\<close>) is an external object; what the
  processor does to it is the sequence of images it sends.
\<close>

record segmenter =
  received :: "image list"

definition send :: "segmenter \<Rightarrow> image \<Rightarrow> segmenter" where
  "send seg img = seg\<lparr>received := received seg @ [img]\<rparr>"

text \<open>
  The fields of the class. \<open>targetCanvas\<close> and \<open>selfieSegmentation\<close> are \<open>None\<close>
  once \<^verbatim>\<open>destroy\<close> has set them to \<^verbatim>\<open>undefined\<close>; \<open>mask_channel\<close> is the field
  \<^verbatim>\<open>mask$\<close>; \<open>bufferDestroyed\<close> and \<open>fpsTimer\<close> record whether the output buffer
  has been destroyed and whether the interval timer is still set.
\<close>

record processor =
  targetCanvas :: "image option"
  bufferDestroyed :: bool
  sourceWidth :: nat
  sourceHeight :: nat
  blurAmount :: real
  frames :: nat
  fpsTimer :: bool
  reduceFactor :: nat
  runningCount :: nat
  scaleFactor :: real
  selfieSegmentation :: "segmenter option"
  isReady :: bool
  mask_channel :: deferred

text \<open>
  The field initialisers and the constructor: a fresh canvas is 300 by 150, the period
  is 1 and the counter starts at the period, "to force a run on first process".
\<close>

definition new_processor :: "real \<Rightarrow> processor" where
  "new_processor strength =
     \<lparr>targetCanvas = Some (blank 300 150), bufferDestroyed = False,
      sourceWidth = 0, sourceHeight = 0, blurAmount = strength, frames = 0, fpsTimer = True,
      reduceFactor = 1, runningCount = 1, scaleFactor = 1,
      selfieSegmentation = Some \<lparr>received = []\<rparr>, isReady = False,
      mask_channel = deferred_new\<rparr>"

text \<open>The continuation of \<^verbatim>\<open>selfieSegmentation.initialize()\<close>.\<close>

definition initialized :: "processor \<Rightarrow> processor" where
  "initialized s = s\<lparr>isReady := True\<rparr>"

text \<open>The callback registered with \<^verbatim>\<open>onResults\<close>: it publishes the mask, whatever the state.\<close>

definition on_results :: "processor \<Rightarrow> image \<Rightarrow> processor" where
  "on_results s segmentationMask = s\<lparr>mask_channel := deferred_next segmentationMask (mask_channel s)\<rparr>"


definition destroy :: "processor \<Rightarrow> processor" where
  "destroy s = s\<lparr>bufferDestroyed := True, selfieSegmentation := None,
                  targetCanvas := None, fpsTimer := False\<rparr>"

text \<open>
  Frame buffers: the frames of the upstream source, whose canvas may already have been
  released, and the processor's own \<^verbatim>\<open>canvasVideoFrameBuffer\<close>, a view of its target
  canvas.
\<close>

datatype frame_buffer = VideoFrameBuffer "image option" | CanvasVideoFrameBuffer

fun asCanvasElement :: "processor \<Rightarrow> frame_buffer \<Rightarrow> image option" where
  "asCanvasElement s (VideoFrameBuffer c) = c"
| "asCanvasElement s CanvasVideoFrameBuffer = (if bufferDestroyed s then None else targetCanvas s)"

subsection \<open>One call of process\<close>

text \<open>
  What the platform and the backend do during one call is the call's environment:
  whether creating the scaled canvas's context fails (so that line 121 raises), what
  becomes of the image sent (the call raises at once; no result ever arrives, as when
  the returned promise rejects; or \<^verbatim>\<open>onResults\<close> delivers a mask), whether drawing
  the mask raises (line 151 or 153), the blur filter and the raster of the FPS text.
\<close>

datatype infer_outcome = SendThrows | NoResults | Results image

record tick_env =
  scaling_throws :: bool
  infer :: infer_outcome
  drawing_throws :: bool
  blur :: "real \<Rightarrow> image \<Rightarrow> image"
  fps_text :: "nat \<Rightarrow> nat \<Rightarrow> pixel"

text \<open>
  Lines 98 to 105. The new dimensions were read from a canvas, so the assignment stores
  them as they are; assigning a canvas dimension clears the canvas. When the processor
  has been destroyed, \<^verbatim>\<open>this.targetCanvas\<close> is undefined and line 103 raises.
\<close>

definition resize_throws :: "processor \<Rightarrow> nat \<Rightarrow> nat \<Rightarrow> bool" where
  "resize_throws s frameWidth frameHeight =
     ((sourceWidth s \<noteq> frameWidth \<or> sourceHeight s \<noteq> frameHeight) \<and> targetCanvas s = None)"

definition resize :: "processor \<Rightarrow> nat \<Rightarrow> nat \<Rightarrow> processor" where
  "resize s frameWidth frameHeight =
     (if sourceWidth s \<noteq> frameWidth \<or> sourceHeight s \<noteq> frameHeight
      then s\<lparr>sourceWidth := frameWidth, sourceHeight := frameHeight,
             targetCanvas := map_option (\<lambda>c. blank frameWidth frameHeight) (targetCanvas s)\<rparr>
      else s)"

text \<open>
  Lines 116 to 123: a new canvas of the scaled size, on which the input is drawn under
  the transform \<^verbatim>\<open>scale(f, f)\<close>. The input is only read.
\<close>

definition scale :: "image \<Rightarrow> real \<Rightarrow> image" where
  "scale inputCanvas f =
     (let w = canvas_dimension 300 (real (width inputCanvas) * f);
          h = canvas_dimension 150 (real (height inputCanvas) * f)
      in \<lparr>width = w, height = h,
          pixels = (\<lambda>x y. if x < w \<and> y < h \<and> 0 < f
                             \<and> nat \<lfloor>real x / f\<rfloor> < width inputCanvas
                             \<and> nat \<lfloor>real y / f\<rfloor> < height inputCanvas
                           then pixels inputCanvas (nat \<lfloor>real x / f\<rfloor>) (nat \<lfloor>real y / f\<rfloor>)
                           else None)\<rparr>)"

text \<open>
  Lines 148 to 165: clear, draw the mask, draw the frame where the mask is (source-in),
  draw the frame, blurred when the strength is positive, under it (destination-over).
\<close>

definition composite :: "(real \<Rightarrow> image \<Rightarrow> image) \<Rightarrow> image \<Rightarrow> image \<Rightarrow> image \<Rightarrow> real \<Rightarrow> image" where
  "composite blurf canvas inputCanvas segmentationMask strength =
     (let w = width canvas; h = height canvas;
          c1 = clearRect canvas;
          c2 = drawImage SourceOver (stretch segmentationMask w h) c1;
          c3 = drawImage SourceIn (stretch inputCanvas w h) c2;
          background = (if 0 < strength then blurf strength (stretch inputCanvas w h)
                        else stretch inputCanvas w h)
      in drawImage DestinationOver background c3)"

datatype try_result = Completed | Caught | Suspended

text \<open>Lines 142 to 169: count the frame, and composite when there is a mask.\<close>

definition render :: "processor \<Rightarrow> tick_env \<Rightarrow> image \<Rightarrow> image option \<Rightarrow> processor \<times> try_result" where
  "render s env inputCanvas mask' =
     (let s1 = s\<lparr>runningCount := runningCount s + 1\<rparr> in
      case mask' of
        None \<Rightarrow> (s1, Completed)
      | Some m \<Rightarrow>
         (case targetCanvas s1 of
            None \<Rightarrow> (s1, Caught)
          | Some canvas \<Rightarrow>
             if drawing_throws env then (s1\<lparr>targetCanvas := Some (clearRect canvas)\<rparr>, Caught)
             else (s1\<lparr>targetCanvas :=
                        Some (fillText (fps_text env)
                               (composite (blur env) canvas inputCanvas m (blurAmount s1)))\<rparr>,
                   Completed)))"

text \<open>
  Lines 137 to 169: what a call does once the mask it waits for has arrived.
\<close>

definition after_await :: "processor \<Rightarrow> tick_env \<Rightarrow> image \<Rightarrow> image \<Rightarrow> processor \<times> try_result" where
  "after_await s env inputCanvas m = render (s\<lparr>frames := frames s + 1\<rparr>) env inputCanvas (Some m)"

text \<open>
  Lines 109 to 169, the body of the \<^verbatim>\<open>try\<close>. \<open>Caught\<close>: an exception reached the
  \<^verbatim>\<open>catch\<close>. \<open>Suspended\<close>: the call waits at line 137 for a mask that never comes.
\<close>

definition try_block :: "processor \<Rightarrow> tick_env \<Rightarrow> image \<Rightarrow> processor \<times> try_result" where
  "try_block s env inputCanvas =
     (let doScale = (scaleFactor s \<noteq> 1);
          mask' = deferred_value (mask_channel s)
      in if runningCount s = reduceFactor s then
           (let s1 = s\<lparr>runningCount := runningCount s mod 1\<rparr> in
            if doScale \<and> scaling_throws env then (s1, Caught)
            else
              (let scaledCanvas = (if doScale then scale inputCanvas (scaleFactor s1) else inputCanvas);
                   s2 = s1\<lparr>mask_channel := deferred_whenNext (mask_channel s1)\<rparr>
               in case selfieSegmentation s2 of
                    None \<Rightarrow> (s2, Caught)
                  | Some seg \<Rightarrow>
                     (case infer env of
                        SendThrows \<Rightarrow> (s2, Caught)
                      | NoResults \<Rightarrow> (s2\<lparr>selfieSegmentation := Some (send seg scaledCanvas)\<rparr>, Suspended)
                      | Results m \<Rightarrow>
                          after_await (on_results (s2\<lparr>selfieSegmentation := Some (send seg scaledCanvas)\<rparr>) m)
                                      env inputCanvas m)))
         else render s env inputCanvas mask')"

text \<open>
  The promise that \<^verbatim>\<open>process\<close> returns resolves with an array (\<open>Returned\<close>, with the
  array's contents at that moment), rejects (\<open>Rejected\<close>: an exception left the function)
  or stays pending for ever (\<open>Pending\<close>). Reading \<^verbatim>\<open>buffers[0]\<close> of an empty array
  gives \<^verbatim>\<open>undefined\<close>, and calling a method on it raises a TypeError, before the
  \<^verbatim>\<open>try\<close>.
\<close>

datatype outcome = Returned "frame_buffer list" | Rejected | Pending

definition process :: "processor \<Rightarrow> tick_env \<Rightarrow> frame_buffer list \<Rightarrow> processor \<times> outcome" where
  "process s env buffers =
     (if \<not> isReady s then (s, Returned buffers)
      else case buffers of
        [] \<Rightarrow> (s, Rejected)
      | b # rest \<Rightarrow>
         (case asCanvasElement s b of
            None \<Rightarrow> (s, Returned buffers)
          | Some inputCanvas \<Rightarrow>
             (let frameWidth = width inputCanvas; frameHeight = height inputCanvas in
              if frameWidth = 0 \<or> frameHeight = 0 then (s, Returned buffers)
              else if resize_throws s frameWidth frameHeight
                then (s\<lparr>sourceWidth := frameWidth, sourceHeight := frameHeight\<rparr>, Rejected)
              else
                (case try_block (resize s frameWidth frameHeight) env inputCanvas of
                   (s', Caught) \<Rightarrow> (s', Returned buffers)
                 | (s', Suspended) \<Rightarrow> (s', Pending)
                 | (s', Completed) \<Rightarrow> (s', Returned (buffers[0 := CanvasVideoFrameBuffer]))))))"

text \<open>
  A sequence of calls, each awaited before the next is made: a call that stays pending
  is the last one.
\<close>

fun feed :: "processor \<Rightarrow> (tick_env \<times> frame_buffer list) list \<Rightarrow> processor \<times> outcome list" where
  "feed s [] = (s, [])"
| "feed s ((env, buffers) # ticks) =
     (case process s env buffers of
        (s', Pending) \<Rightarrow> (s', [Pending])
      | (s', out) \<Rightarrow> (case feed s' ticks of (s'', outs) \<Rightarrow> (s'', out # outs)))"

text \<open>
  An environment in which nothing fails and the backend delivers the mask \<open>m\<close>; its blur
  paints the colour 9 everywhere, its FPS text is empty.
\<close>

definition delivering :: "image \<Rightarrow> tick_env" where
  "delivering m =
     \<lparr>scaling_throws = False, infer = Results m, drawing_throws = False,
      blur = (\<lambda>r img. solid (width img) (height img) 9), fps_text = (\<lambda>x y. None)\<rparr>"

text \<open>The frame of the upstream source that holds the canvas \<open>c\<close>.\<close>

definition upstream :: "image \<Rightarrow> frame_buffer" where
  "upstream c = VideoFrameBuffer (Some c)"

text \<open>A first frame is degenerate when it has no canvas left or an empty one.\<close>

definition degenerate :: "processor \<Rightarrow> frame_buffer \<Rightarrow> bool" where
  "degenerate s b = (case asCanvasElement s b of None \<Rightarrow> True | Some c \<Rightarrow> width c = 0 \<or> height c = 0)"

text \<open>
  The number of images the backend has been sent; an environment in which the call runs
  to its end; a processor that has not been destroyed; a frame list whose first frame
  comes from upstream with a non-empty canvas.
\<close>

definition submissions :: "processor \<Rightarrow> nat" where
  "submissions s = (case selfieSegmentation s of None \<Rightarrow> 0 | Some seg \<Rightarrow> length (received seg))"

definition delivers :: "tick_env \<Rightarrow> bool" where
  "delivers env =
     (\<not> scaling_throws env \<and> \<not> drawing_throws env \<and>
      (case infer env of Results m \<Rightarrow> True | SendThrows \<Rightarrow> False | NoResults \<Rightarrow> False))"

definition live :: "processor \<Rightarrow> bool" where
  "live s = (targetCanvas s \<noteq> None \<and> selfieSegmentation s \<noteq> None \<and> \<not> bufferDestroyed s)"

definition usable :: "frame_buffer list \<Rightarrow> bool" where
  "usable buffers =
     (case buffers of
        [] \<Rightarrow> False
      | b # rest \<Rightarrow> (case b of
           VideoFrameBuffer c \<Rightarrow> (case c of None \<Rightarrow> False | Some img \<Rightarrow> 0 < width img \<and> 0 < height img)
         | CanvasVideoFrameBuffer \<Rightarrow> False))"

text \<open>
  The period is the field \<^verbatim>\<open>reduceFactor\<close>, initialised to the literal 1 at line 31, and
  the counter is initialised to the period at line 32. \<open>with_period N\<close> is the processor
  whose two initialisers use \<open>N\<close> instead.
\<close>

definition with_period :: "nat \<Rightarrow> processor \<Rightarrow> processor" where
  "with_period N s = s\<lparr>reduceFactor := N, runningCount := N\<rparr>"



text \<open>
  The target canvas has the size recorded in \<open>sourceWidth\<close> and \<open>sourceHeight\<close>, unless
  no frame has been seen yet (both are 0 then).
\<close>

definition sized :: "processor \<Rightarrow> bool" where
  "sized s =
     (case targetCanvas s of
        None \<Rightarrow> True
      | Some canvas \<Rightarrow> (sourceWidth s = 0 \<and> sourceHeight s = 0)
                       \<or> (width canvas = sourceWidth s \<and> height canvas = sourceHeight s))"

text \<open>
  An environment in which \<^verbatim>\<open>send\<close> raises at once, and the processor left by a first
  call, right after readiness, in that environment.
\<close>

definition send_raising :: "tick_env" where
  "send_raising = (delivering (blank 1 1))\<lparr>infer := SendThrows\<rparr>"

definition after_failed_send :: processor where
  "after_failed_send = fst (process (initialized (new_processor 7)) send_raising [upstream (solid 4 2 5)])"




section \<open>Pass-through before readiness\<close>

lemma process_not_ready: "\<not> isReady s \<Longrightarrow> process s env buffers = (s, Returned buffers)"
  by (simp add: process_def)

text \<open>
  Claim C3. While the backend has not finished initialising (\<open>isReady\<close> is false), every
  call of \<open>process\<close> returns the frame list it was given, whatever the frames are, and
  leaves the processor as it was; so does every call of any sequence of calls.
\<close>

theorem not_ready_pass_through:
  "\<not> isReady s \<Longrightarrow> feed s ticks = (s, map (\<lambda>t. Returned (snd t)) ticks)"
proof (induction ticks)
  case Nil
  show ?case by simp
next
  case (Cons t ticks)
  obtain env buffers where t: "t = (env, buffers)" by (cases t)
  from Cons show ?case by (simp add: t process_not_ready)
qed

theorem not_ready_pass_through_witness:
  "\<not> isReady (new_processor 7) \<and>
   feed (new_processor 7) [(delivering (solid 2 2 1), [upstream (solid 4 2 5)]), (delivering (solid 2 2 1), [])]
     = (new_processor 7, [Returned [upstream (solid 4 2 5)], Returned []])"
proof -
  have h: "\<not> isReady (new_processor 7)" by (simp add: new_processor_def)
  show ?thesis
    using h not_ready_pass_through [OF h, of "[(delivering (solid 2 2 1), [upstream (solid 4 2 5)]), (delivering (solid 2 2 1), [])]"]
    by simp
qed

section \<open>Degenerate input\<close>

text \<open>
  Claim C4. When the first frame has width 0 or height 0, or its canvas has already been
  released (\<^verbatim>\<open>asCanvasElement\<close> gives nothing), \<open>process\<close> returns the frame list it
  was given and leaves the processor untouched: nothing is sent to the backend and the
  target canvas is not drawn on.
\<close>

theorem degenerate_pass_through:
  "degenerate s b \<Longrightarrow> process s env (b # rest) = (s, Returned (b # rest))"
  by (auto simp: degenerate_def process_def split: option.splits)

theorem degenerate_pass_through_witness:
  "degenerate (initialized (new_processor 7)) (VideoFrameBuffer None)
   \<and> process (initialized (new_processor 7)) (delivering (solid 2 2 1)) [VideoFrameBuffer None, upstream (solid 4 2 5)]
       = (initialized (new_processor 7), Returned [VideoFrameBuffer None, upstream (solid 4 2 5)])
   \<and> degenerate (initialized (new_processor 7)) (upstream (blank 0 2))
   \<and> process (initialized (new_processor 7)) (delivering (solid 2 2 1)) [upstream (blank 0 2)]
       = (initialized (new_processor 7), Returned [upstream (blank 0 2)])"
proof -
  have h1: "degenerate (initialized (new_processor 7)) (VideoFrameBuffer None)"
    by (simp add: degenerate_def)
  have h2: "degenerate (initialized (new_processor 7)) (upstream (blank 0 2))"
    by (simp add: degenerate_def upstream_def blank_def)
  show ?thesis
    using h1 h2 degenerate_pass_through [OF h1] degenerate_pass_through [OF h2]
    by simp
qed

section \<open>The frame gate\<close>




lemma process_upstream:
  assumes "isReady s" "targetCanvas s \<noteq> None" "0 < width c" "0 < height c"
  shows "process s env (VideoFrameBuffer (Some c) # rest) =
     (case try_block (resize s (width c) (height c)) env c of
        (s', Caught) \<Rightarrow> (s', Returned (VideoFrameBuffer (Some c) # rest))
      | (s', Suspended) \<Rightarrow> (s', Pending)
      | (s', Completed) \<Rightarrow> (s', Returned (CanvasVideoFrameBuffer # rest)))"
  using assms by (auto simp: process_def resize_throws_def Let_def)






lemmas tick_defs = process_def try_block_def after_await_def render_def resize_def resize_throws_def
  on_results_def send_def deferred_value_def deferred_next_def deferred_whenNext_def deferred_new_def
  new_processor_def initialized_def with_period_def delivering_def upstream_def solid_def blank_def
  submissions_def live_def delivers_def usable_def




section \<open>A call without a mask\<close>

lemma no_mask_replaces:
  assumes "isReady s" "targetCanvas s \<noteq> None" "0 < width c" "0 < height c"
    and "runningCount s \<noteq> reduceFactor s" "deferred_value (mask_channel s) = None"
  shows "snd (process s env (VideoFrameBuffer (Some c) # rest)) = Returned (CanvasVideoFrameBuffer # rest)"
  using assms by (simp add: process_upstream try_block_def render_def resize_def)

text \<open>
  Claim C2 says that a ready processor given a usable frame, with no mask delivered in
  the call and none cached, returns the frames unchanged. The code does not: the guard
  of line 143 skips the drawing only, and line 175 still puts the processor's buffer in
  first place. Here the first call after readiness fails in \<^verbatim>\<open>send\<close>, which leaves
  the counter at 0 and the channel empty; the second call, on a processor that is ready
  and has no mask, does not run inference and returns the processor's buffer, whose
  canvas is blank, in place of the first frame.
\<close>

theorem no_mask_replaces_first_frame:
  "isReady after_failed_send \<and> live after_failed_send
   \<and> deferred_value (mask_channel after_failed_send) = None
   \<and> runningCount after_failed_send \<noteq> reduceFactor after_failed_send
   \<and> snd (process after_failed_send (delivering (solid 2 2 1)) [upstream (solid 4 2 5), upstream (solid 4 2 6)])
       = Returned [CanvasVideoFrameBuffer, upstream (solid 4 2 6)]
   \<and> asCanvasElement (fst (process after_failed_send (delivering (solid 2 2 1)) [upstream (solid 4 2 5), upstream (solid 4 2 6)])) CanvasVideoFrameBuffer
       = Some (blank 4 2)"
  by (simp add: tick_defs send_raising_def after_failed_send_def)

section \<open>Scaling and the size of the output\<close>










lemma sized_resize: "sized s \<Longrightarrow> 0 < w \<Longrightarrow> 0 < h \<Longrightarrow> sized (resize s w h)"
  by (auto simp: sized_def resize_def blank_def split: option.splits)

lemma sized_render: "sized s \<Longrightarrow> sized (fst (render s env c m))"
  by (auto simp: sized_def render_def Let_def fillText_def drawImage_def composite_def clearRect_def
           split: option.splits)

lemma sized_try_block: "sized s \<Longrightarrow> sized (fst (try_block s env c))"
proof -
  assume s: "sized s"
  have a: "sized (s\<lparr>runningCount := n\<rparr>)" for n using s by (auto simp: sized_def split: option.splits)
  have b: "sized (s\<lparr>runningCount := n, mask_channel := d\<rparr>)" for n d using s by (auto simp: sized_def split: option.splits)
  have c: "sized (s\<lparr>runningCount := n, mask_channel := d, selfieSegmentation := g\<rparr>)" for n d g
    using s by (auto simp: sized_def split: option.splits)
  have d: "sized (on_results (s\<lparr>runningCount := n, mask_channel := d, selfieSegmentation := g\<rparr>) m\<lparr>frames := k\<rparr>)" for n d g m k
    using s by (auto simp: sized_def on_results_def split: option.splits)
  show ?thesis
    using s a b c d
    by (auto simp: try_block_def after_await_def Let_def sized_render split: option.splits infer_outcome.splits)
qed

lemma sized_process:
  assumes "sized s"
  shows "sized (fst (process s env buffers))"
proof (cases "isReady s")
  case False
  then show ?thesis using assms by (simp add: process_not_ready)
next
  case True
  show ?thesis
  proof (cases buffers)
    case Nil
    then show ?thesis using assms by (simp add: process_def)
  next
    case (Cons b rest)
    show ?thesis
    proof (cases "asCanvasElement s b")
      case None
      then show ?thesis using assms Cons by (simp add: process_def)
    next
      case (Some c)
      show ?thesis
      proof (cases "width c = 0 \<or> height c = 0")
        case True
        then show ?thesis using assms Cons Some by (auto simp: process_def)
      next
        case False
        then have pos: "0 < width c" "0 < height c" by simp_all
        show ?thesis
        proof (cases "resize_throws s (width c) (height c)")
          case True
          then have "targetCanvas s = None" by (simp add: resize_throws_def)
          then show ?thesis using Cons Some False True \<open>isReady s\<close>
            by (simp add: process_def sized_def)
        next
          case nt: False
          have "sized (fst (try_block (resize s (width c) (height c)) env c))"
            using sized_try_block [OF sized_resize [OF assms pos]] .
          then show ?thesis using Cons Some False nt \<open>isReady s\<close>
            by (auto simp: process_def Let_def split: prod.splits try_result.splits)
        qed
      qed
    qed
  qed
qed




section \<open>The compositing passes\<close>

text \<open>What a call that draws leaves on the target canvas.\<close>

lemma render_composites:
  assumes "\<not> drawing_throws env" "targetCanvas s = Some canvas"
  shows "targetCanvas (fst (render s env c (Some m)))
      = Some (fillText (fps_text env) (composite (blur env) canvas c m (blurAmount s)))"
  using assms by (simp add: render_def)










section \<open>Failures\<close>




section \<open>Results that arrive after destroy\<close>

text \<open>
  Claim C6, as the code has it. The callback of lines 50 to 53 has no liveness check, and
  \<^verbatim>\<open>destroy\<close> leaves \<^verbatim>\<open>mask$\<close> in place. A result that arrives after
  \<^verbatim>\<open>destroy\<close> therefore raises nothing and touches neither the removed canvas nor the
  closed backend, the destroyed buffer or the timer, but it does change the processor: it
  publishes its mask in the channel. A call that was waiting for it resumes, counts the
  frame, and ends in the \<^verbatim>\<open>catch\<close>, because the target canvas is gone.
\<close>

theorem late_results_after_destroy:
  "on_results (destroy s) m = (destroy s)\<lparr>mask_channel := deferred_next m (mask_channel s)\<rparr>
   \<and> deferred_value (mask_channel (on_results (destroy s) m)) = Some m
   \<and> snd (after_await (on_results (destroy s) m) env c m) = Caught
   \<and> targetCanvas (fst (after_await (on_results (destroy s) m) env c m)) = None
   \<and> selfieSegmentation (fst (after_await (on_results (destroy s) m) env c m)) = None"
  by (simp add: on_results_def destroy_def deferred_value_def deferred_next_def after_await_def render_def)

text \<open>The processor after \<^verbatim>\<open>destroy\<close> and a late result is not the processor after \<^verbatim>\<open>destroy\<close>.\<close>

theorem late_results_counterexample:
  "on_results (destroy (initialized (new_processor 7))) (solid 2 2 1) \<noteq> destroy (initialized (new_processor 7))"
proof
  assume "on_results (destroy (initialized (new_processor 7))) (solid 2 2 1) = destroy (initialized (new_processor 7))"
  then have "deferred_value (mask_channel (on_results (destroy (initialized (new_processor 7))) (solid 2 2 1)))
     = deferred_value (mask_channel (destroy (initialized (new_processor 7))))" by simp
  then show False
    by (simp add: on_results_def destroy_def deferred_value_def deferred_next_def initialized_def
                  new_processor_def deferred_new_def)
qed

section \<open>The returned array\<close>





end
